theory Spec2Isabelle
  imports Main "HOL-Library.Char_ord" "HOL-Library.List_Lexorder"
begin

section \<open>Strings as Python and SQLite see them\<close>

text \<open>
  Identifiers, names and dates are Python \<open>str\<close> values stored in SQLite TEXT cells.
  They are modelled as \<open>string\<close> (a list of bytes); the development covers ASCII
  text, which is what every identifier and date of the application is made of.
  SQLite compares TEXT cells bytewise, a proper prefix first: that is the order
  \<open>HOL-Library.List_Lexorder\<close> puts on \<open>string\<close>.
\<close>

definition is_space :: "char \<Rightarrow> bool" where
  \<comment> \<open>\<open>str.isspace\<close> on ASCII: TAB, LF, VT, FF, CR, FS, GS, RS, US and the blank\<close>
  "is_space c = (of_char c \<in> {9, 10, 11, 12, 13, 28, 29, 30, 31, 32 :: nat})"

definition strip :: "string \<Rightarrow> string" where
  \<comment> \<open>\<open>str.strip()\<close>\<close>
  "strip s = rev (dropWhile is_space (rev (dropWhile is_space s)))"

definition startswith :: "string \<Rightarrow> string \<Rightarrow> bool" where
  \<comment> \<open>\<open>s.startswith(p)\<close>\<close>
  "startswith s p = (take (length p) s = p)"

definition digit_of :: "char \<Rightarrow> nat option" where
  "digit_of c =
     (let k = (of_char c :: nat) in if 48 \<le> k \<and> k \<le> 57 then Some (k - 48) else None)"

definition digit_char :: "nat \<Rightarrow> char" where
  "digit_char d = char_of (48 + d)"

text \<open>
  \<open>int(s)\<close> on a \<open>str\<close>, base ten: surrounding white space is dropped, one sign is
  allowed, then come digits, where a single underscore may stand between two digits.
  Anything else raises \<open>ValueError\<close>, which is \<open>None\<close> here.
\<close>

fun py_digits :: "nat \<Rightarrow> bool \<Rightarrow> string \<Rightarrow> nat option" where
  "py_digits acc after_digit [] = (if after_digit then Some acc else None)"
| "py_digits acc after_digit (c # cs) =
     (if c = CHR ''_'' then (if after_digit then py_digits acc False cs else None)
      else (case digit_of c of
              None \<Rightarrow> None
            | Some d \<Rightarrow> py_digits (10 * acc + d) True cs))"

definition py_int :: "string \<Rightarrow> int option" where
  "py_int s =
     (case strip s of
        [] \<Rightarrow> None
      | c # cs \<Rightarrow>
          if c = CHR ''-'' then map_option (\<lambda>n. - int n) (py_digits 0 False cs)
          else if c = CHR ''+'' then map_option int (py_digits 0 False cs)
          else map_option int (py_digits 0 False (c # cs)))"

text \<open>\<open>str(n)\<close> for a natural number: its decimal digits, most significant first.\<close>

function dec :: "nat \<Rightarrow> string" where
  "dec n = (if n < 10 then [digit_char n] else dec (n div 10) @ [digit_char (n mod 10)])"
  by pat_completeness auto
termination
  by (relation "measure id") auto

declare dec.simps [simp del]

definition zfill :: "nat \<Rightarrow> string \<Rightarrow> string" where
  "zfill w s = replicate (w - length s) (CHR ''0'') @ s"

definition format_03d :: "int \<Rightarrow> string" where
  \<comment> \<open>the format spec \<open>03d\<close>: zero padding to width three, the sign counted in the width\<close>
  "format_03d n =
     (if n < 0 then CHR ''-'' # zfill 2 (dec (nat (- n))) else zfill 3 (dec (nat n)))"

section \<open>Identifier generation (\<open>BaseController._get_next_id\<close>)\<close>

text \<open>
  The loop over \<open>existing_ids\<close> appends the parsed suffix of every identifier that is
  non-empty, starts with the prefix and whose remainder \<open>int\<close> accepts; an identifier
  whose remainder does not parse is skipped (\<open>continue\<close>).
\<close>

fun collect_numbers :: "string \<Rightarrow> string list \<Rightarrow> int list \<Rightarrow> int list" where
  "collect_numbers prefix [] numbers = numbers"
| "collect_numbers prefix (id_str # rest) numbers =
     (if id_str \<noteq> [] \<and> startswith id_str prefix then
        (case py_int (drop (length prefix) id_str) of
           Some num \<Rightarrow> collect_numbers prefix rest (numbers @ [num])
         | None \<Rightarrow> collect_numbers prefix rest numbers)
      else collect_numbers prefix rest numbers)"

fun py_max :: "int \<Rightarrow> int list \<Rightarrow> int" where
  \<comment> \<open>\<open>max\<close> of a non-empty list, given as head and tail\<close>
  "py_max m [] = m"
| "py_max m (x # xs) = py_max (if m < x then x else m) xs"

definition get_next_id :: "string \<Rightarrow> string list \<Rightarrow> string" where
  "get_next_id prefix existing_ids =
     (if existing_ids = [] then prefix @ ''001''
      else (case collect_numbers prefix existing_ids [] of
              [] \<Rightarrow> prefix @ ''001''
            | n # ns \<Rightarrow> prefix @ format_03d (py_max n ns + 1)))"

definition suffix_numbers :: "string \<Rightarrow> string list \<Rightarrow> int set" where
  \<comment> \<open>the spec's words: the numeric suffixes of the existing identifiers that share
      the prefix\<close>
  "suffix_numbers prefix ids =
     {n. \<exists>i \<in> set ids. startswith i prefix \<and> py_int (drop (length prefix) i) = Some n}"


section \<open>The three tables and the connection\<close>

record lieu_row =
  l_idlieu :: string
  design :: string
  province :: string

record employe_row =
  numEmp :: string
  civilite :: string
  nom :: string
  prenom :: string
  mail :: string
  poste :: string
  idlieu :: "string option"

record affecter_row =
  numAffect :: string
  a_numEmp :: string
  AncienLieu :: string
  NouveauLieu :: string
  dateAffect :: string
  datePriseService :: string

record tables =
  LIEU :: "lieu_row list"
  EMPLOYE :: "employe_row list"
  AFFECTER :: "affecter_row list"

text \<open>
  \<open>sqlite3.connect\<close> gives a connection in the module's default transaction mode:
  a transaction is opened implicitly before an INSERT, UPDATE or DELETE when none is
  open, \<open>BEGIN\<close> inside an open transaction raises \<open>OperationalError\<close>, and
  \<open>rollback()\<close> restores the tables as they were when the transaction was opened.
  \<open>cur\<close> is what statements on the connection read and write; \<open>saved\<close> is the
  state a rollback restores, present exactly while a transaction is open.
  No source file issues \<open>PRAGMA foreign_keys = ON\<close>, so the FOREIGN KEY clauses of
  the schema are not enforced; PRIMARY KEY, UNIQUE and CHECK are.
\<close>

record connection =
  cur :: tables
  saved :: "tables option"

datatype db_error = IntegrityError | OperationalError


definition begin_transaction :: "connection \<Rightarrow> db_error option \<times> connection" where
  "begin_transaction c =
     (case saved c of
        Some t \<Rightarrow> (Some OperationalError, c)
      | None \<Rightarrow> (None, c\<lparr>saved := Some (cur c)\<rparr>))"

definition implicit_begin :: "connection \<Rightarrow> connection" where
  "implicit_begin c = (case saved c of Some t \<Rightarrow> c | None \<Rightarrow> c\<lparr>saved := Some (cur c)\<rparr>)"

definition commit :: "connection \<Rightarrow> connection" where
  "commit c = c\<lparr>saved := None\<rparr>"

definition rollback :: "connection \<Rightarrow> connection" where
  "rollback c = (case saved c of None \<Rightarrow> c | Some t \<Rightarrow> c\<lparr>cur := t, saved := None\<rparr>)"

definition execute_insert ::
  "(tables \<Rightarrow> db_error + tables) \<Rightarrow> connection \<Rightarrow> db_error option \<times> connection" where
  \<comment> \<open>a failed statement changes no row and leaves the transaction open\<close>
  "execute_insert stmt c =
     (let c1 = implicit_begin c in
      case stmt (cur c1) of
        Inl e \<Rightarrow> (Some e, c1)
      | Inr t \<Rightarrow> (None, c1\<lparr>cur := t\<rparr>))"

definition execute_write :: "(tables \<Rightarrow> tables) \<Rightarrow> connection \<Rightarrow> connection" where
  \<comment> \<open>an UPDATE or DELETE that no constraint of the schema can reject\<close>
  "execute_write stmt c = (let c1 = implicit_begin c in c1\<lparr>cur := stmt (cur c1)\<rparr>)"

subsection \<open>Statements\<close>

definition CIVILITE_OPTIONS :: "string list" where
  "CIVILITE_OPTIONS = [''Mr'', ''Mme'', ''Mlle'']"

definition insert_lieu :: "lieu_row \<Rightarrow> tables \<Rightarrow> db_error + tables" where
  "insert_lieu r t =
     (if l_idlieu r \<in> set (map l_idlieu (LIEU t)) then Inl IntegrityError
      else Inr (t\<lparr>LIEU := LIEU t @ [r]\<rparr>))"

definition insert_employe :: "employe_row \<Rightarrow> tables \<Rightarrow> db_error + tables" where
  "insert_employe r t =
     (if numEmp r \<in> set (map numEmp (EMPLOYE t)) \<or> mail r \<in> set (map mail (EMPLOYE t))
         \<or> civilite r \<notin> set CIVILITE_OPTIONS
      then Inl IntegrityError
      else Inr (t\<lparr>EMPLOYE := EMPLOYE t @ [r]\<rparr>))"

definition insert_affecter :: "affecter_row \<Rightarrow> tables \<Rightarrow> db_error + tables" where
  "insert_affecter r t =
     (if numAffect r \<in> set (map numAffect (AFFECTER t)) then Inl IntegrityError
      else Inr (t\<lparr>AFFECTER := AFFECTER t @ [r]\<rparr>))"

fun executemany :: "('r \<Rightarrow> tables \<Rightarrow> db_error + tables) \<Rightarrow> 'r list \<Rightarrow> tables \<Rightarrow> db_error + tables" where
  "executemany ins [] t = Inr t"
| "executemany ins (r # rs) t =
     (case ins r t of Inl e \<Rightarrow> Inl e | Inr t' \<Rightarrow> executemany ins rs t')"

definition set_idlieu :: "string option \<Rightarrow> string \<Rightarrow> tables \<Rightarrow> tables" where
  \<comment> \<open>\<open>UPDATE EMPLOYE SET idlieu = ? WHERE numEmp = ?\<close>\<close>
  "set_idlieu v emp t =
     t\<lparr>EMPLOYE := map (\<lambda>e. if numEmp e = emp then e\<lparr>idlieu := v\<rparr> else e) (EMPLOYE t)\<rparr>"

definition update_affecter :: "string \<Rightarrow> affecter_row \<Rightarrow> tables \<Rightarrow> tables" where
  \<comment> \<open>\<open>UPDATE AFFECTER SET numEmp = ?, AncienLieu = ?, NouveauLieu = ?, dateAffect = ?,
      datePriseService = ? WHERE numAffect = ?\<close>\<close>
  "update_affecter pk a t =
     t\<lparr>AFFECTER :=
        map (\<lambda>r. if numAffect r = pk
                 then r\<lparr>a_numEmp := a_numEmp a, AncienLieu := AncienLieu a,
                        NouveauLieu := NouveauLieu a, dateAffect := dateAffect a,
                        datePriseService := datePriseService a\<rparr>
                 else r) (AFFECTER t)\<rparr>"

definition delete_affecter :: "string \<Rightarrow> tables \<Rightarrow> tables" where
  "delete_affecter pk t = t\<lparr>AFFECTER := filter (\<lambda>r. numAffect r \<noteq> pk) (AFFECTER t)\<rparr>"

definition delete_lieu :: "string \<Rightarrow> tables \<Rightarrow> tables" where
  "delete_lieu pk t = t\<lparr>LIEU := filter (\<lambda>r. l_idlieu r \<noteq> pk) (LIEU t)\<rparr>"

definition rowcount_affecter :: "string \<Rightarrow> tables \<Rightarrow> nat" where
  \<comment> \<open>\<open>cursor.rowcount\<close> of an UPDATE or DELETE on AFFECTER by primary key\<close>
  "rowcount_affecter pk t = length (filter (\<lambda>r. numAffect r = pk) (AFFECTER t))"

definition rowcount_lieu :: "string \<Rightarrow> tables \<Rightarrow> nat" where
  "rowcount_lieu pk t = length (filter (\<lambda>r. l_idlieu r = pk) (LIEU t))"

subsection \<open>Queries\<close>

definition Employee_get :: "tables \<Rightarrow> string \<Rightarrow> employe_row option" where
  "Employee_get t pk = find (\<lambda>e. numEmp e = pk) (EMPLOYE t)"

definition Location_get :: "tables \<Rightarrow> string \<Rightarrow> lieu_row option" where
  "Location_get t pk = find (\<lambda>l. l_idlieu l = pk) (LIEU t)"

definition Assignment_get_assignment :: "tables \<Rightarrow> string \<Rightarrow> affecter_row option" where
  \<comment> \<open>Modelled from the spec: \<open>Assignment.get_assignment\<close>, which
      \<open>AssignmentController.get_by_id\<close> calls and no source file defines. The spec gives
      every entity \<open>get(id) -> Entity | NotFound\<close>: the row with that primary key.\<close>
  "Assignment_get_assignment t pk = find (\<lambda>r. numAffect r = pk) (AFFECTER t)"

text \<open>
  \<open>ORDER BY dateAffect DESC, datePriseService DESC LIMIT 1\<close>: the row with the greatest
  pair of dates. The date cells hold text (every date the application stores contains
  a hyphen, so SQLite keeps it as TEXT) and are compared as text. Among rows with equal
  dates SQLite may return any; the model returns the one stored first.
\<close>

definition newer :: "affecter_row \<Rightarrow> affecter_row \<Rightarrow> bool" where
  "newer r s =
     (dateAffect s < dateAffect r
      \<or> (dateAffect s = dateAffect r \<and> datePriseService s < datePriseService r))"

fun first_by_date :: "affecter_row list \<Rightarrow> affecter_row option" where
  "first_by_date [] = None"
| "first_by_date (r # rs) =
     (case first_by_date rs of
        None \<Rightarrow> Some r
      | Some s \<Rightarrow> if newer s r then Some s else Some r)"

definition latest_assignment :: "tables \<Rightarrow> string \<Rightarrow> affecter_row option" where
  "latest_assignment t emp = first_by_date (filter (\<lambda>r. a_numEmp r = emp) (AFFECTER t))"

section \<open>Dates (\<open>datetime.strptime(s, '%Y-%m-%d').date()\<close>)\<close>

text \<open>
  \<open>strptime\<close> matches the text against
  \<^verbatim>\<open>(\d\d\d\d)-(1[0-2]|0[1-9]|[1-9])-(3[0-1]|[1-2]\d|0[1-9]|[1-9]| [1-9])\<close>
  from the left, an earlier alternative first, and raises \<open>ValueError\<close> when the text
  does not match, when text remains after the match, or when the three numbers are
  not a date of the calendar (\<open>None\<close> here).
\<close>

type_synonym date = "nat \<times> nat \<times> nat"

definition date_less :: "date \<Rightarrow> date \<Rightarrow> bool" where
  "date_less a b =
     (case a of (y, m, d) \<Rightarrow> case b of (y', m', d') \<Rightarrow>
        y < y' \<or> (y = y' \<and> (m < m' \<or> (m = m' \<and> d < d'))))"

definition is_leap :: "nat \<Rightarrow> bool" where
  "is_leap y = (y mod 4 = 0 \<and> (y mod 100 \<noteq> 0 \<or> y mod 400 = 0))"

definition days_in_month :: "nat \<Rightarrow> nat \<Rightarrow> nat" where
  "days_in_month y m =
     (if m = 2 then (if is_leap y then 29 else 28)
      else if m = 4 \<or> m = 6 \<or> m = 9 \<or> m = 11 then 30 else 31)"

definition make_date :: "nat \<Rightarrow> nat \<Rightarrow> nat \<Rightarrow> date option" where
  "make_date y m d =
     (if 1 \<le> y \<and> y \<le> 9999 \<and> 1 \<le> m \<and> m \<le> 12 \<and> 1 \<le> d \<and> d \<le> days_in_month y m
      then Some (y, m, d) else None)"

definition parse_day :: "string \<Rightarrow> nat option" where
  \<comment> \<open>the day alternative, which must use up the rest of the text\<close>
  "parse_day s =
     (case s of
        [a] \<Rightarrow> (case digit_of a of Some x \<Rightarrow> if 1 \<le> x then Some x else None | None \<Rightarrow> None)
      | [a, b] \<Rightarrow>
          (case digit_of b of
             None \<Rightarrow> None
           | Some y \<Rightarrow>
               (case digit_of a of
                  Some x \<Rightarrow>
                    if x = 3 \<and> y \<le> 1 then Some (30 + y)
                    else if x = 1 \<or> x = 2 then Some (10 * x + y)
                    else if x = 0 \<and> 1 \<le> y then Some y
                    else None
                | None \<Rightarrow> if a = CHR '' '' \<and> 1 \<le> y then Some y else None))
      | _ \<Rightarrow> None)"

definition parse_month_day :: "string \<Rightarrow> (nat \<times> nat) option" where
  "parse_month_day s =
     (case s of
        a # b # rest \<Rightarrow>
          (case digit_of a of
             None \<Rightarrow> None
           | Some x \<Rightarrow>
               (case digit_of b of
                  Some y \<Rightarrow>
                    if (x = 1 \<and> y \<le> 2) \<or> (x = 0 \<and> 1 \<le> y) then
                      (case rest of
                         c # rest' \<Rightarrow>
                           if c = CHR ''-'' then map_option (Pair (10 * x + y)) (parse_day rest')
                           else None
                       | [] \<Rightarrow> None)
                    else None
                | None \<Rightarrow>
                    if 1 \<le> x \<and> b = CHR ''-'' then map_option (Pair x) (parse_day rest)
                    else None))
      | _ \<Rightarrow> None)"

definition strptime_ymd :: "string \<Rightarrow> date option" where
  "strptime_ymd s =
     (case s of
        y1 # y2 # y3 # y4 # dash # rest \<Rightarrow>
          (case (digit_of y1, digit_of y2, digit_of y3, digit_of y4) of
             (Some a, Some b, Some c, Some d) \<Rightarrow>
               if dash = CHR ''-'' then
                 (case parse_month_day rest of
                    Some (m, dd) \<Rightarrow> make_date (1000 * a + 100 * b + 10 * c + d) m dd
                  | None \<Rightarrow> None)
               else None
           | _ \<Rightarrow> None)
      | _ \<Rightarrow> None)"

section \<open>Entity validation\<close>

datatype validation_failure =
    AssignmentIdRequired | EmployeeRequired | PreviousLocationRequired | NewLocationRequired
  | LocationsMustDiffer | ServiceBeforeAssignment | AssignmentInFuture | InvalidDateFormat
  | EmployeeIdRequired | ValidTitleRequired | LastNameRequired | FirstNameRequired
  | ValidEmailRequired | JobPositionRequired

definition blank :: "string \<Rightarrow> bool" where
  \<comment> \<open>\<open>not s or not s.strip()\<close>\<close>
  "blank s = (s = [] \<or> strip s = [])"

definition Assignment_validate :: "date \<Rightarrow> affecter_row \<Rightarrow> validation_failure option" where
  \<comment> \<open>\<open>Assignment.validate\<close>; \<open>today\<close> is \<open>date.today()\<close>. \<open>None\<close> is \<open>(True, "")\<close>.\<close>
  "Assignment_validate today a =
     (if blank (numAffect a) then Some AssignmentIdRequired
      else if blank (a_numEmp a) then Some EmployeeRequired
      else if blank (AncienLieu a) then Some PreviousLocationRequired
      else if blank (NouveauLieu a) then Some NewLocationRequired
      else if AncienLieu a = NouveauLieu a then Some LocationsMustDiffer
      else (case strptime_ymd (dateAffect a) of
              None \<Rightarrow> Some InvalidDateFormat
            | Some affect_date \<Rightarrow>
                (case strptime_ymd (datePriseService a) of
                   None \<Rightarrow> Some InvalidDateFormat
                 | Some service_date \<Rightarrow>
                     if date_less service_date affect_date then Some ServiceBeforeAssignment
                     else if date_less today affect_date then Some AssignmentInFuture
                     else None)))"

definition Employee_validate :: "employe_row \<Rightarrow> validation_failure option" where
  \<comment> \<open>\<open>Employee.validate\<close>\<close>
  "Employee_validate e =
     (if blank (numEmp e) then Some EmployeeIdRequired
      else if civilite e = [] \<or> civilite e \<notin> set CIVILITE_OPTIONS then Some ValidTitleRequired
      else if blank (nom e) then Some LastNameRequired
      else if blank (prenom e) then Some FirstNameRequired
      else if mail e = [] \<or> CHR ''@'' \<notin> set (mail e) then Some ValidEmailRequired
      else if blank (poste e) then Some JobPositionRequired
      else None)"

definition validate_email :: "string \<Rightarrow> bool" where
  \<comment> \<open>\<open>helpers.validate_email\<close>: \<open>'@' in email and '.' in email.split('@')[-1]\<close>\<close>
  "validate_email email =
     (email \<noteq> [] \<and> CHR ''@'' \<in> set email
      \<and> CHR ''.'' \<in> set (rev (takeWhile (\<lambda>c. c \<noteq> CHR ''@'') (rev email))))"

section \<open>Storage gateway: seeding (\<open>Database.seed_initial_data\<close>)\<close>

definition sample_locations :: "lieu_row list" where
  "sample_locations =
     map (\<lambda>(i, d, p). \<lparr>l_idlieu = i, design = d, province = p\<rparr>)
       [(''L1'', ''Antananarivo'', ''Antananarivo''), (''L2'', ''Toamasina'', ''Toamasina''),
        (''L3'', ''Antsirabe'', ''Antananarivo''), (''L4'', ''Fianarantsoa'', ''Fianarantsoa''),
        (''L5'', ''Mahajanga'', ''Mahajanga''), (''L6'', ''Toliara'', ''Toliara''),
        (''L7'', ''Antsiranana'', ''Antsiranana''), (''L8'', ''Moramanga'', ''Toamasina''),
        (''L9'', ''Ambalavao'', ''Fianarantsoa''), (''L10'', ''Sambava'', ''Antsiranana'')]"

definition sample_employees :: "employe_row list" where
  "sample_employees =
     map (\<lambda>(n, c, l, f, m, p, i).
            \<lparr>numEmp = n, civilite = c, nom = l, prenom = f, mail = m, poste = p, idlieu = Some i\<rparr>)
       [(''E001'', ''Mr'', ''Rakoto'', ''Jean'', ''jean.rakoto@example.com'', ''Manager'', ''L1''),
        (''E002'', ''Mme'', ''Rasoa'', ''Marie'', ''marie.rasoa@example.com'', ''Developer'', ''L1''),
        (''E003'', ''Mr'', ''Rabe'', ''Paul'', ''paul.rabe@example.com'', ''Analyst'', ''L2''),
        (''E004'', ''Mlle'', ''Rakotomalala'', ''Sofia'', ''sofia.rakoto@example.com'', ''Designer'', ''L3''),
        (''E005'', ''Mr'', ''Randria'', ''Jean'', ''jean.randria@example.com'', ''Tester'', ''L4''),
        (''E006'', ''Mme'', ''Razafy'', ''Claire'', ''claire.razafy@example.com'', ''Developer'', ''L2''),
        (''E007'', ''Mr'', ''Rakotondrabe'', ''Marc'', ''marc.rabe@example.com'', ''Manager'', ''L5''),
        (''E008'', ''Mlle'', ''Rasolofoniaina'', ''Julie'', ''julie.rasolo@example.com'', ''Analyst'', ''L6''),
        (''E009'', ''Mr'', ''Randriamanantena'', ''Pierre'', ''pierre.randria@example.com'', ''Developer'', ''L7''),
        (''E010'', ''Mme'', ''Rakotovao'', ''Nirina'', ''nirina.rakoto@example.com'', ''Designer'', ''L8'')]"

definition sample_assignments :: "affecter_row list" where
  "sample_assignments =
     map (\<lambda>(n, e, a, b, d, s).
            \<lparr>numAffect = n, a_numEmp = e, AncienLieu = a, NouveauLieu = b,
             dateAffect = d, datePriseService = s\<rparr>)
       [(''A001'', ''E001'', ''L1'', ''L2'', ''2023-01-15'', ''2023-02-01''),
        (''A002'', ''E002'', ''L1'', ''L3'', ''2023-02-10'', ''2023-02-20''),
        (''A003'', ''E003'', ''L2'', ''L4'', ''2023-03-05'', ''2023-03-15''),
        (''A004'', ''E004'', ''L3'', ''L5'', ''2023-04-12'', ''2023-04-22''),
        (''A005'', ''E005'', ''L4'', ''L6'', ''2023-05-20'', ''2023-06-01''),
        (''A006'', ''E006'', ''L2'', ''L7'', ''2023-06-15'', ''2023-06-25''),
        (''A007'', ''E007'', ''L5'', ''L8'', ''2023-07-10'', ''2023-07-20''),
        (''A008'', ''E008'', ''L6'', ''L9'', ''2023-08-05'', ''2023-08-15''),
        (''A009'', ''E009'', ''L7'', ''L10'', ''2023-09-12'', ''2023-09-22''),
        (''A010'', ''E010'', ''L8'', ''L1'', ''2023-10-18'', ''2023-11-01'')]"

definition seed_table ::
  "bool \<Rightarrow> (tables \<Rightarrow> db_error + tables) \<Rightarrow> connection \<Rightarrow> db_error option \<times> connection" where
  \<comment> \<open>the row count of one table, and the \<open>executemany\<close> when the count is 0\<close>
  "seed_table is_empty stmt c = (if is_empty then execute_insert stmt c else (None, c))"

definition seed_initial_data :: "connection \<Rightarrow> db_error + connection" where
  \<comment> \<open>an exception of \<open>executemany\<close> is not caught: it leaves \<open>Database.__init__\<close>\<close>
  "seed_initial_data c =
     (case seed_table (length (LIEU (cur c)) = 0) (executemany insert_lieu sample_locations) c of
        (Some e, c1) \<Rightarrow> Inl e
      | (None, c1) \<Rightarrow>
          (case seed_table (length (EMPLOYE (cur c1)) = 0)
                  (executemany insert_employe sample_employees) c1 of
             (Some e, c2) \<Rightarrow> Inl e
           | (None, c2) \<Rightarrow>
               (case seed_table (length (AFFECTER (cur c2)) = 0)
                       (executemany insert_affecter sample_assignments) c2 of
                  (Some e, c3) \<Rightarrow> Inl e
                | (None, c3) \<Rightarrow> Inr (commit c3))))"

section \<open>Controllers and the direct database path\<close>

datatype error =
    MissingRequired "string list"
  | Invalid validation_failure
  | EmployeeNotFound
  | LocationNotFound string
  | LocationMismatch
  | AssignmentNotFound
  | AlreadyAssigned
  | EmployeesAssigned
  | ReferencedInHistory
  | DatabaseError db_error

text \<open>
  The \<open>data\<close> dictionary of the assignment controller: \<open>None\<close> is a key that is not in
  the dictionary, \<open>Some s\<close> a key with the text \<open>s\<close>.
\<close>

record assignment_data =
  d_numAffect :: "string option"
  d_numEmp :: "string option"
  d_AncienLieu :: "string option"
  d_NouveauLieu :: "string option"
  d_dateAffect :: "string option"
  d_datePriseService :: "string option"

definition falsy :: "string option \<Rightarrow> bool" where
  \<comment> \<open>\<open>field not in data or not data[field]\<close>\<close>
  "falsy v = (case v of None \<Rightarrow> True | Some s \<Rightarrow> s = [])"

definition field_of :: "string option \<Rightarrow> string" where
  \<comment> \<open>\<open>data[field]\<close>, read only after the field was found present\<close>
  "field_of v = (case v of Some s \<Rightarrow> s | None \<Rightarrow> [])"

definition validate_required_fields :: "(string \<times> string option) list \<Rightarrow> string list" where
  \<comment> \<open>\<open>BaseController._validate_required_fields\<close>: the list \<open>missing_fields\<close>\<close>
  "validate_required_fields required = map fst (filter (\<lambda>(k, v). falsy v) required)"

text \<open>
  Every \<open>try\<close> block of the controllers catches \<open>Exception\<close> and calls
  \<open>rollback()\<close>. Besides the errors that the tables themselves cause (a primary key in
  use, a \<open>BEGIN\<close> inside a transaction), a call of the sqlite3 module can raise for
  reasons outside them, such as a locked database or a full disk. The argument
  \<open>fault\<close> stands for that: \<open>Some k\<close> says that the call number \<open>k\<close> of the block,
  counted from 0 in the order the calls are written, raises \<open>OperationalError\<close>, and
  \<open>None\<close> that no call does.
\<close>

type_synonym fault = "nat option"

definition raises :: "fault \<Rightarrow> nat \<Rightarrow> bool" where
  "raises fault k = (fault = Some k)"

definition insert_and_propagate ::
  "fault \<Rightarrow> affecter_row \<Rightarrow> connection \<Rightarrow> db_error option \<times> connection" where
  \<comment> \<open>the \<open>try\<close> block that \<open>AssignmentController.create\<close>,
      \<open>EmployeeController.assign_location\<close> and \<open>Database.add_assignment\<close> each spell out:
      BEGIN (0), INSERT INTO AFFECTER (1), UPDATE EMPLOYE SET idlieu (2), commit (3);
      rollback on any exception\<close>
  "insert_and_propagate fault a c =
     (if raises fault 0 then (Some OperationalError, rollback c)
      else
        (case begin_transaction c of
           (Some e, c1) \<Rightarrow> (Some e, rollback c1)
         | (None, c1) \<Rightarrow>
             if raises fault 1 then (Some OperationalError, rollback c1)
             else
               (case execute_insert (insert_affecter a) c1 of
                  (Some e, c2) \<Rightarrow> (Some e, rollback c2)
                | (None, c2) \<Rightarrow>
                    if raises fault 2 then (Some OperationalError, rollback c2)
                    else
                      let c3 = execute_write (set_idlieu (Some (NouveauLieu a)) (a_numEmp a)) c2
                      in if raises fault 3 then (Some OperationalError, rollback c3)
                         else (None, commit c3))))"

definition AssignmentController_create ::
  "date \<Rightarrow> fault \<Rightarrow> assignment_data \<Rightarrow> connection \<Rightarrow> (error + string) \<times> connection" where
  "AssignmentController_create today fault data c =
     (let missing = validate_required_fields
            [(''numEmp'', d_numEmp data), (''AncienLieu'', d_AncienLieu data),
             (''NouveauLieu'', d_NouveauLieu data), (''dateAffect'', d_dateAffect data),
             (''datePriseService'', d_datePriseService data)]
      in if missing \<noteq> [] then (Inl (MissingRequired missing), c)
      else
        let num = (if falsy (d_numAffect data)
                   then get_next_id ''A'' (map numAffect (AFFECTER (cur c)))
                   else field_of (d_numAffect data));
            assignment = \<lparr>numAffect = strip num,
                          a_numEmp = strip (field_of (d_numEmp data)),
                          AncienLieu = strip (field_of (d_AncienLieu data)),
                          NouveauLieu = strip (field_of (d_NouveauLieu data)),
                          dateAffect = field_of (d_dateAffect data),
                          datePriseService = field_of (d_datePriseService data)\<rparr>
        in (case Assignment_validate today assignment of
              Some f \<Rightarrow> (Inl (Invalid f), c)
            | None \<Rightarrow>
                (case Employee_get (cur c) (a_numEmp assignment) of
                   None \<Rightarrow> (Inl EmployeeNotFound, c)
                 | Some employee \<Rightarrow>
                     if Location_get (cur c) (AncienLieu assignment) = None
                     then (Inl (LocationNotFound (AncienLieu assignment)), c)
                     else if Location_get (cur c) (NouveauLieu assignment) = None
                     then (Inl (LocationNotFound (NouveauLieu assignment)), c)
                     else if idlieu employee \<noteq> Some (AncienLieu assignment)
                     then (Inl LocationMismatch, c)
                     else (case insert_and_propagate fault assignment c of
                             (Some e, c') \<Rightarrow> (Inl (DatabaseError e), c')
                           | (None, c') \<Rightarrow> (Inr (numAffect assignment), c')))))"

definition update_and_propagate ::
  "fault \<Rightarrow> string \<Rightarrow> affecter_row \<Rightarrow> bool \<Rightarrow> connection \<Rightarrow> error option \<times> connection" where
  \<comment> \<open>the \<open>try\<close> block of \<open>AssignmentController.update\<close>: BEGIN (0), UPDATE AFFECTER (1), a
      rollback when no row was touched, UPDATE EMPLOYE SET idlieu (2) when the flag is
      set, commit (3); rollback on any exception\<close>
  "update_and_propagate fault assignment_id assignment update_employee_location c =
     (if raises fault 0 then (Some (DatabaseError OperationalError), rollback c)
      else
        (case begin_transaction c of
           (Some e, c1) \<Rightarrow> (Some (DatabaseError e), rollback c1)
         | (None, c1) \<Rightarrow>
             if raises fault 1 then (Some (DatabaseError OperationalError), rollback c1)
             else
               let n = rowcount_affecter assignment_id (cur c1);
                   c2 = execute_write (update_affecter assignment_id assignment) c1
               in if n = 0 then (Some AssignmentNotFound, rollback c2)
                  else if update_employee_location \<and> raises fault 2
                  then (Some (DatabaseError OperationalError), rollback c2)
                  else
                    let c3 = (if update_employee_location
                              then execute_write
                                     (set_idlieu (Some (NouveauLieu assignment))
                                        (a_numEmp assignment)) c2
                              else c2)
                    in if raises fault 3 then (Some (DatabaseError OperationalError), rollback c3)
                       else (None, commit c3)))"

definition AssignmentController_update ::
  "date \<Rightarrow> fault \<Rightarrow> string \<Rightarrow> assignment_data \<Rightarrow> connection \<Rightarrow> error option \<times> connection" where
  \<comment> \<open>\<open>None\<close> is \<open>(True, "Assignment updated successfully!")\<close>\<close>
  "AssignmentController_update today fault assignment_id data c =
     (case Assignment_get_assignment (cur c) assignment_id of
        None \<Rightarrow> (Some AssignmentNotFound, c)
      | Some row \<Rightarrow>
          let assignment =
                row\<lparr>a_numEmp := (case d_numEmp data of Some s \<Rightarrow> strip s | None \<Rightarrow> a_numEmp row),
                    AncienLieu := (case d_AncienLieu data of Some s \<Rightarrow> strip s | None \<Rightarrow> AncienLieu row),
                    NouveauLieu := (case d_NouveauLieu data of Some s \<Rightarrow> strip s | None \<Rightarrow> NouveauLieu row),
                    dateAffect := (case d_dateAffect data of Some s \<Rightarrow> s | None \<Rightarrow> dateAffect row),
                    datePriseService :=
                      (case d_datePriseService data of Some s \<Rightarrow> s | None \<Rightarrow> datePriseService row)\<rparr>
          in (case Assignment_validate today assignment of
                Some f \<Rightarrow> (Some (Invalid f), c)
              | None \<Rightarrow>
                  (case Employee_get (cur c) (a_numEmp assignment) of
                     None \<Rightarrow> (Some EmployeeNotFound, c)
                   | Some employee \<Rightarrow>
                       if Location_get (cur c) (AncienLieu assignment) = None
                       then (Some (LocationNotFound (AncienLieu assignment)), c)
                       else if Location_get (cur c) (NouveauLieu assignment) = None
                       then (Some (LocationNotFound (NouveauLieu assignment)), c)
                       else
                         let update_employee_location =
                               (case latest_assignment (cur c) (a_numEmp assignment) of
                                  None \<Rightarrow> False
                                | Some l \<Rightarrow> numAffect l = assignment_id
                                            \<and> NouveauLieu l \<noteq> NouveauLieu assignment)
                         in update_and_propagate fault assignment_id assignment
                              update_employee_location c)))"

definition delete_and_recompute ::
  "fault \<Rightarrow> string \<Rightarrow> string \<Rightarrow> bool \<Rightarrow> connection \<Rightarrow> error option \<times> connection" where
  \<comment> \<open>the \<open>try\<close> block of \<open>AssignmentController.delete\<close>: BEGIN (0), DELETE FROM AFFECTER
      (1), a rollback when no row was touched, and when the flag is set the SELECT of the
      latest remaining row (2) and the UPDATE that makes the employee's idlieu its
      NouveauLieu, or NULL (3); commit (4); rollback on any exception\<close>
  "delete_and_recompute fault assignment_id emp update_employee_location c =
     (if raises fault 0 then (Some (DatabaseError OperationalError), rollback c)
      else
        (case begin_transaction c of
           (Some e, c1) \<Rightarrow> (Some (DatabaseError e), rollback c1)
         | (None, c1) \<Rightarrow>
             if raises fault 1 then (Some (DatabaseError OperationalError), rollback c1)
             else
               let n = rowcount_affecter assignment_id (cur c1);
                   c2 = execute_write (delete_affecter assignment_id) c1
               in if n = 0 then (Some AssignmentNotFound, rollback c2)
                  else if update_employee_location \<and> (raises fault 2 \<or> raises fault 3)
                  then (Some (DatabaseError OperationalError), rollback c2)
                  else
                    let c3 = (if update_employee_location
                              then execute_write
                                     (set_idlieu
                                        (map_option NouveauLieu (latest_assignment (cur c2) emp))
                                        emp) c2
                              else c2)
                    in if raises fault 4 then (Some (DatabaseError OperationalError), rollback c3)
                       else (None, commit c3)))"

definition AssignmentController_delete ::
  "fault \<Rightarrow> string \<Rightarrow> connection \<Rightarrow> error option \<times> connection" where
  \<comment> \<open>\<open>None\<close> is \<open>(True, "Assignment deleted successfully!")\<close>\<close>
  "AssignmentController_delete fault assignment_id c =
     (case Assignment_get_assignment (cur c) assignment_id of
        None \<Rightarrow> (Some AssignmentNotFound, c)
      | Some assignment \<Rightarrow>
          let update_employee_location =
                (case latest_assignment (cur c) (a_numEmp assignment) of
                   None \<Rightarrow> False
                 | Some l \<Rightarrow> numAffect l = assignment_id)
          in delete_and_recompute fault assignment_id (a_numEmp assignment)
               update_employee_location c)"

definition EmployeeController_assign_location ::
  "fault \<Rightarrow> string \<Rightarrow> string \<Rightarrow> string \<Rightarrow> string \<Rightarrow> string option \<Rightarrow> connection
     \<Rightarrow> error option \<times> connection" where
  \<comment> \<open>\<open>None\<close> is \<open>(True, "Employee assigned to ... successfully!")\<close>\<close>
  "EmployeeController_assign_location fault employee_id new_location_id assignment_date
       service_start_date assignment_id c =
     (case Employee_get (cur c) employee_id of
        None \<Rightarrow> (Some EmployeeNotFound, c)
      | Some employee \<Rightarrow>
          if Location_get (cur c) new_location_id = None
          then (Some (LocationNotFound new_location_id), c)
          else if idlieu employee = Some new_location_id then (Some AlreadyAssigned, c)
          else
            let old_location_id = (if falsy (idlieu employee) then ''UNKNOWN''
                                   else field_of (idlieu employee));
                aid = (if falsy assignment_id
                       then get_next_id ''A'' (map numAffect (AFFECTER (cur c)))
                       else field_of assignment_id)
            in (case insert_and_propagate fault
                       \<lparr>numAffect = aid, a_numEmp = employee_id, AncienLieu = old_location_id,
                        NouveauLieu = new_location_id, dateAffect = assignment_date,
                        datePriseService = service_start_date\<rparr> c of
                  (Some e, c') \<Rightarrow> (Some (DatabaseError e), c')
                | (None, c') \<Rightarrow> (None, c')))"

definition Database_add_assignment ::
  "fault \<Rightarrow> affecter_row \<Rightarrow> connection \<Rightarrow> error option \<times> connection" where
  \<comment> \<open>\<open>Database.add_assignment\<close>, its six arguments given as the row they make\<close>
  "Database_add_assignment fault a c =
     (case insert_and_propagate fault a c of
        (Some e, c') \<Rightarrow> (Some (DatabaseError e), c')
      | (None, c') \<Rightarrow> (None, c'))"

definition Database_update_assignment ::
  "fault \<Rightarrow> affecter_row \<Rightarrow> connection \<Rightarrow> error option \<times> connection" where
  \<comment> \<open>\<open>Database.update_assignment\<close>, its six arguments given as the row they make:
      BEGIN (0), SELECT of the stored row (1), UPDATE AFFECTER (2), UPDATE EMPLOYE SET idlieu
      (3) when the employee or the destination changed, commit (4)\<close>
  "Database_update_assignment fault a c =
     (if raises fault 0 then (Some (DatabaseError OperationalError), rollback c)
      else
        (case begin_transaction c of
           (Some e, c1) \<Rightarrow> (Some (DatabaseError e), rollback c1)
         | (None, c1) \<Rightarrow>
             if raises fault 1 then (Some (DatabaseError OperationalError), rollback c1)
             else
               (case find (\<lambda>r. numAffect r = numAffect a) (AFFECTER (cur c1)) of
                  None \<Rightarrow> (Some AssignmentNotFound, rollback c1)
                | Some original \<Rightarrow>
                    if raises fault 2 then (Some (DatabaseError OperationalError), rollback c1)
                    else
                      let c2 = execute_write (update_affecter (numAffect a) a) c1;
                          changed = (a_numEmp a \<noteq> a_numEmp original
                                     \<or> NouveauLieu a \<noteq> NouveauLieu original)
                      in if changed \<and> raises fault 3
                         then (Some (DatabaseError OperationalError), rollback c2)
                         else
                           let c3 = (if changed
                                     then execute_write
                                            (set_idlieu (Some (NouveauLieu a)) (a_numEmp a)) c2
                                     else c2)
                           in if raises fault 4
                              then (Some (DatabaseError OperationalError), rollback c3)
                              else (None, commit c3))))"

definition LocationController_delete ::
  "fault \<Rightarrow> string \<Rightarrow> connection \<Rightarrow> error option \<times> connection" where
  \<comment> \<open>the \<open>try\<close> block: DELETE FROM LIEU (0), an early return when no row was touched,
      commit (1); rollback on any exception\<close>
  "LocationController_delete fault location_id c =
     (case Location_get (cur c) location_id of
        None \<Rightarrow> (Some (LocationNotFound location_id), c)
      | Some location \<Rightarrow>
          if length (filter (\<lambda>e. idlieu e = Some location_id) (EMPLOYE (cur c))) > 0
          then (Some EmployeesAssigned, c)
          else if length (filter (\<lambda>a. AncienLieu a = location_id \<or> NouveauLieu a = location_id)
                            (AFFECTER (cur c))) > 0
          then (Some ReferencedInHistory, c)
          else if raises fault 0 then (Some (DatabaseError OperationalError), rollback c)
          else
            let n = rowcount_lieu location_id (cur c);
                c1 = execute_write (delete_lieu location_id) c
            in if n = 0 then (Some (LocationNotFound location_id), c1)
               else if raises fault 1 then (Some (DatabaseError OperationalError), rollback c1)
               else (None, commit c1))"

definition is_referential_integrity_error :: "error \<Rightarrow> bool" where
  "is_referential_integrity_error e = (e = EmployeesAssigned \<or> e = ReferencedInHistory)"

definition is_validation_error :: "error \<Rightarrow> bool" where
  "is_validation_error e = (case e of MissingRequired m \<Rightarrow> True | Invalid f \<Rightarrow> True | _ \<Rightarrow> False)"

section \<open>What the claims speak of\<close>


definition mirrors_latest :: "tables \<Rightarrow> string \<Rightarrow> bool" where
  \<comment> \<open>the employee's idlieu is the NouveauLieu of the employee's latest AFFECTER row,
      and NULL when the employee has no row\<close>
  "mirrors_latest t emp =
     (map_option idlieu (Employee_get t emp)
        = Some (map_option NouveauLieu (latest_assignment t emp)))"

subsection \<open>A small database\<close>

definition example_locations :: "lieu_row list" where
  "example_locations =
     [\<lparr>l_idlieu = ''L1'', design = ''HQ'', province = ''North''\<rparr>,
      \<lparr>l_idlieu = ''L2'', design = ''Branch'', province = ''South''\<rparr>,
      \<lparr>l_idlieu = ''L3'', design = ''Depot'', province = ''East''\<rparr>]"

definition example_employee :: "string \<Rightarrow> string \<Rightarrow> string option \<Rightarrow> employe_row" where
  "example_employee n m l =
     \<lparr>numEmp = n, civilite = ''Mr'', nom = ''Rakoto'', prenom = ''Jean'', mail = m,
      poste = ''Manager'', idlieu = l\<rparr>"

definition example_db :: connection where
  \<comment> \<open>three locations, E1 at L1, E2 with no location, no assignment\<close>
  "example_db =
     \<lparr>cur = \<lparr>LIEU = example_locations,
             EMPLOYE = [example_employee ''E1'' ''e1@example.com'' (Some ''L1''),
                        example_employee ''E2'' ''e2@example.com'' None],
             AFFECTER = []\<rparr>,
      saved = None\<rparr>"

definition first_move :: affecter_row where
  "first_move =
     \<lparr>numAffect = ''A001'', a_numEmp = ''E1'', AncienLieu = ''L1'', NouveauLieu = ''L2'',
      dateAffect = ''2024-02-01'', datePriseService = ''2024-02-05''\<rparr>"

definition moved_db :: connection where
  \<comment> \<open>\<open>example_db\<close> after E1 moved from L1 to L2 on 2024-02-01\<close>
  "moved_db =
     \<lparr>cur = \<lparr>LIEU = example_locations,
             EMPLOYE = [example_employee ''E1'' ''e1@example.com'' (Some ''L2''),
                        example_employee ''E2'' ''e2@example.com'' None],
             AFFECTER = [first_move]\<rparr>,
      saved = None\<rparr>"

definition later_db :: connection where
  \<comment> \<open>\<open>moved_db\<close> after a second assignment of E1, from L2 to L3, dated 2024-01-10\<close>
  "later_db =
     \<lparr>cur = \<lparr>LIEU = example_locations,
             EMPLOYE = [example_employee ''E1'' ''e1@example.com'' (Some ''L3''),
                        example_employee ''E2'' ''e2@example.com'' None],
             AFFECTER = [first_move,
                         \<lparr>numAffect = ''A002'', a_numEmp = ''E1'', AncienLieu = ''L2'',
                           NouveauLieu = ''L3'', dateAffect = ''2024-01-10'',
                           datePriseService = ''2024-01-15''\<rparr>]\<rparr>,
      saved = None\<rparr>"

definition reassigned_db :: connection where
  \<comment> \<open>\<open>moved_db\<close> with the row A001 given to E2, no idlieu touched\<close>
  "reassigned_db =
     \<lparr>cur = \<lparr>LIEU = example_locations,
             EMPLOYE = [example_employee ''E1'' ''e1@example.com'' (Some ''L2''),
                        example_employee ''E2'' ''e2@example.com'' None],
             AFFECTER = [first_move\<lparr>a_numEmp := ''E2''\<rparr>]\<rparr>,
      saved = None\<rparr>"

definition new_assignment :: "string \<Rightarrow> string \<Rightarrow> string \<Rightarrow> string \<Rightarrow> string \<Rightarrow> assignment_data" where
  \<comment> \<open>the dictionary of a creation that leaves the identifier to the controller\<close>
  "new_assignment e a b d s =
     \<lparr>d_numAffect = None, d_numEmp = Some e, d_AncienLieu = Some a, d_NouveauLieu = Some b,
      d_dateAffect = Some d, d_datePriseService = Some s\<rparr>"

definition move_to_employee :: "string \<Rightarrow> assignment_data" where
  \<comment> \<open>the dictionary of an update that changes the employee only\<close>
  "move_to_employee e =
     \<lparr>d_numAffect = None, d_numEmp = Some e, d_AncienLieu = None, d_NouveauLieu = None,
      d_dateAffect = None, d_datePriseService = None\<rparr>"

definition one_location_db :: connection where
  \<comment> \<open>a database with one location and nothing else\<close>
  "one_location_db =
     \<lparr>cur = \<lparr>LIEU = [\<lparr>l_idlieu = ''L1'', design = ''HQ'', province = ''North''\<rparr>],
             EMPLOYE = [], AFFECTER = []\<rparr>,
      saved = None\<rparr>"

section \<open>Identifier generation: parsing undoes formatting\<close>


lemma digit_of_digit_char: "d < 10 \<Longrightarrow> digit_of (digit_char d) = Some d"
  by (simp add: digit_of_def digit_char_def Let_def)

lemma digit_char_not_us: "d < 10 \<Longrightarrow> digit_char d \<noteq> CHR ''_''"
  by (auto simp: digit_char_def dest!: arg_cong[where f="of_char :: char \<Rightarrow> nat"])

lemma digit_char_not_space: "d < 10 \<Longrightarrow> \<not> is_space (digit_char d)"
  by (auto simp: digit_char_def is_space_def)

lemma py_digits_snoc:
  "d < 10 \<Longrightarrow> py_digits acc b xs = Some v \<Longrightarrow> py_digits acc b (xs @ [digit_char d]) = Some (10 * v + d)"
proof (induction acc b xs rule: py_digits.induct)
  case (1 acc after_digit)
  then show ?case by (simp add: digit_of_digit_char digit_char_not_us split: if_splits)
next
  case (2 acc after_digit c cs)
  then show ?case by (auto split: if_splits option.splits)
qed

lemma py_digits_dec: "py_digits 0 b (dec n) = Some n"
proof (induction n rule: dec.induct)
  case (1 n)
  show ?case
  proof (cases "n < 10")
    case True
    then show ?thesis by (subst dec.simps) (simp add: digit_of_digit_char digit_char_not_us)
  next
    case False
    with 1 have "py_digits 0 b (dec (n div 10)) = Some (n div 10)" by simp
    from py_digits_snoc[OF _ this, of "n mod 10"] False show ?thesis
      by (subst dec.simps) simp
  qed
qed

lemma digit_of_zero: "digit_of (CHR ''0'') = Some 0"
  by (simp add: digit_of_def)

lemma py_digits_zfill: "py_digits 0 b (zfill w (dec n)) = Some n"
proof -
  have "py_digits 0 b (replicate k (CHR ''0'') @ dec n) = Some n" for k b
    by (induction k arbitrary: b) (simp_all add: py_digits_dec digit_of_zero)
  then show ?thesis by (simp add: zfill_def)
qed

lemma dec_nonempty: "dec n \<noteq> []"
  by (subst dec.simps) simp

lemma dec_digits: "c \<in> set (dec n) \<Longrightarrow> \<exists>d<10. c = digit_char d"
proof (induction n rule: dec.induct)
  case (1 n)
  show ?case
  proof (cases "n < 10")
    case True
    with 1(2) show ?thesis by (subst (asm) dec.simps) auto
  next
    case False
    with 1(2) have "c \<in> set (dec (n div 10)) \<or> c = digit_char (n mod 10)"
      by (subst (asm) dec.simps) auto
    with 1(1) False show ?thesis by (metis mod_less_divisor zero_less_numeral)
  qed
qed

lemma zero_is_digit_char: "CHR ''0'' = digit_char 0"
  by (rule of_char_eqI[where ?'a = nat]) (simp add: digit_char_def)

lemma zfill_digits: "c \<in> set (zfill w (dec n)) \<Longrightarrow> \<exists>d<10. c = digit_char d"
  using dec_digits zero_is_digit_char by (fastforce simp: zfill_def)

lemma zfill_nonempty: "zfill w (dec n) \<noteq> []"
  by (simp add: zfill_def dec_nonempty)

lemma strip_id: "s \<noteq> [] \<Longrightarrow> \<not> is_space (hd s) \<Longrightarrow> \<not> is_space (last s) \<Longrightarrow> strip s = s"
proof -
  assume a: "s \<noteq> []" "\<not> is_space (hd s)" "\<not> is_space (last s)"
  have d: "xs \<noteq> [] \<Longrightarrow> \<not> is_space (hd xs) \<Longrightarrow> dropWhile is_space xs = xs" for xs
    by (cases xs) auto
  from a have "dropWhile is_space (rev s) = rev s"
    by (intro d) (simp_all add: hd_rev)
  with a d[of s] show ?thesis by (simp add: strip_def)
qed

lemma digit_char_neq_sign: "d < 10 \<Longrightarrow> digit_char d \<noteq> CHR ''-'' \<and> digit_char d \<noteq> CHR ''+''"
  by (auto simp: digit_char_def dest!: arg_cong[where f="of_char :: char \<Rightarrow> nat"])

lemma py_int_zfill: "py_int (zfill w (dec n)) = Some (int n)"
proof -
  let ?s = "zfill w (dec n)"
  have ne: "?s \<noteq> []" by (rule zfill_nonempty)
  then have "hd ?s \<in> set ?s" "last ?s \<in> set ?s" by simp_all
  then obtain d e where d: "d < 10" "hd ?s = digit_char d" and e: "e < 10" "last ?s = digit_char e"
    using zfill_digits by blast
  then have st: "strip ?s = ?s"
    using ne by (simp add: strip_id digit_char_not_space)
  obtain c cs where cs: "?s = c # cs" using ne by (cases ?s) auto
  with d have "c \<noteq> CHR ''-''" "c \<noteq> CHR ''+''" using digit_char_neq_sign by auto
  with st cs py_digits_zfill[of False w n] show ?thesis by (simp add: py_int_def)
qed

lemma py_int_format_03d: "py_int (format_03d n) = Some n"
proof (cases "n < 0")
  case False
  then show ?thesis by (simp add: format_03d_def py_int_zfill)
next
  case True
  let ?s = "zfill 2 (dec (nat (- n)))"
  have ne: "?s \<noteq> []" by (rule zfill_nonempty)
  then have "last ?s \<in> set ?s" by simp
  then obtain e where e: "e < 10" "last ?s = digit_char e" using zfill_digits by blast
  have "\<not> is_space (CHR ''-'')" by (simp add: is_space_def)
  with e ne have "strip (CHR ''-'' # ?s) = CHR ''-'' # ?s"
    by (simp add: strip_id digit_char_not_space)
  with True py_digits_zfill[of False 2 "nat (- n)"] show ?thesis
    by (simp add: format_03d_def py_int_def)
qed

lemma py_int_001: "py_int ''001'' = Some 1"
  by code_simp

lemma suffix_numbers_Cons:
  "suffix_numbers p (i # ids) =
     (if startswith i p then (case py_int (drop (length p) i) of None \<Rightarrow> {} | Some n \<Rightarrow> {n}) else {})
     \<union> suffix_numbers p ids"
  by (auto simp: suffix_numbers_def split: option.splits)

lemma suffix_numbersI:
  "p @ x \<in> set ids \<Longrightarrow> py_int x = Some n \<Longrightarrow> n \<in> suffix_numbers p ids"
  unfolding suffix_numbers_def startswith_def
  by (rule CollectI, rule bexI[where x = "p @ x"]) simp_all

lemma py_int_Nil: "py_int [] = None"
  by (simp add: py_int_def strip_def)

lemma set_collect_numbers:
  "set (collect_numbers p ids acc) = set acc \<union> suffix_numbers p ids"
proof (induction ids arbitrary: acc)
  case Nil
  then show ?case by (simp add: suffix_numbers_def)
next
  case (Cons i ids)
  have "i = [] \<Longrightarrow> startswith i p \<Longrightarrow> py_int (drop (length p) i) = None"
    by (simp add: py_int_Nil)
  with Cons show ?case
    by (auto simp: suffix_numbers_Cons split: option.splits)
qed

lemma finite_suffix_numbers: "finite (suffix_numbers p ids)"
  using set_collect_numbers[of p ids "[]"] by (metis List.finite_set sup_bot.left_neutral set_empty2 empty_set)

lemma py_max_Max: "py_max m xs = Max (insert m (set xs))"
proof (induction xs arbitrary: m)
  case Nil
  then show ?case by simp
next
  case (Cons x xs)
  have "Max (insert (if m < x then x else m) (set xs)) = Max (insert m (insert x (set xs)))"
    by (cases "set xs = {}") (auto simp: max_def Max_insert)
  with Cons show ?case by simp
qed


section \<open>Identifier generation: the next identifier is new\<close>

lemma get_next_id_eq:
  "get_next_id prefix ids =
     (if suffix_numbers prefix ids = {} then prefix @ ''001''
      else prefix @ format_03d (Max (suffix_numbers prefix ids) + 1))"
proof -
  let ?S = "suffix_numbers prefix ids"
  have S: "set (collect_numbers prefix ids []) = ?S"
    by (simp add: set_collect_numbers)
  have empty_ids: "ids = [] \<Longrightarrow> ?S = {}" by (simp add: suffix_numbers_def)
  show ?thesis
  proof (cases "collect_numbers prefix ids []")
    case Nil
    with S have "?S = {}" by simp
    with Nil show ?thesis by (simp add: get_next_id_def)
  next
    case (Cons n ns)
    with S have "?S = insert n (set ns)" by simp
    with Cons empty_ids show ?thesis
      by (auto simp: get_next_id_def py_max_Max)
  qed
qed

lemma get_next_id_fresh: "get_next_id prefix ids \<notin> set ids"
proof
  let ?S = "suffix_numbers prefix ids"
  assume mem: "get_next_id prefix ids \<in> set ids"
  show False
  proof (cases "?S = {}")
    case True
    with mem have "prefix @ ''001'' \<in> set ids" by (simp add: get_next_id_eq)
    then have "1 \<in> ?S"
      using py_int_001 by (rule suffix_numbersI)
    with True show False by simp
  next
    case False
    let ?m = "Max ?S + 1"
    from False mem have "prefix @ format_03d ?m \<in> set ids" by (simp add: get_next_id_eq)
    then have "?m \<in> ?S"
      using py_int_format_03d[of ?m] by (rule suffix_numbersI)
    then have "?m \<le> Max ?S" using finite_suffix_numbers by (intro Max_ge)
    then show False by simp
  qed
qed

section \<open>Transactions\<close>

lemma begin_transaction_eq:
  "begin_transaction c =
     (if saved c = None then (None, \<lparr>cur = cur c, saved = Some (cur c)\<rparr>)
      else (Some OperationalError, c))"
  by (cases c) (simp add: begin_transaction_def split: option.splits)

lemma execute_write_open:
  "execute_write stmt \<lparr>cur = t, saved = Some t0\<rparr> = \<lparr>cur = stmt t, saved = Some t0\<rparr>"
  by (simp add: execute_write_def implicit_begin_def)

lemma execute_insert_open:
  "execute_insert stmt \<lparr>cur = t, saved = Some t0\<rparr> =
     (case stmt t of Inl e \<Rightarrow> (Some e, \<lparr>cur = t, saved = Some t0\<rparr>)
                   | Inr t' \<Rightarrow> (None, \<lparr>cur = t', saved = Some t0\<rparr>))"
  by (simp add: execute_insert_def implicit_begin_def split: sum.splits)

lemma rollback_open: "rollback \<lparr>cur = t, saved = Some t0\<rparr> = \<lparr>cur = t0, saved = None\<rparr>"
  by (simp add: rollback_def)

lemma commit_eq: "commit \<lparr>cur = t, saved = s\<rparr> = \<lparr>cur = t, saved = None\<rparr>"
  by (simp add: commit_def)

lemma closed_connection: "saved c = None \<Longrightarrow> \<lparr>cur = cur c, saved = None\<rparr> = c"
  by (cases c) simp



lemma insert_and_propagate_eq:
  "insert_and_propagate fault a c =
     (if raises fault 0 \<or> saved c \<noteq> None then (Some OperationalError, rollback c)
      else if raises fault 1 then (Some OperationalError, c)
      else if numAffect a \<in> set (map numAffect (AFFECTER (cur c))) then (Some IntegrityError, c)
      else if raises fault 2 \<or> raises fault 3 then (Some OperationalError, c)
      else (None, \<lparr>cur = set_idlieu (Some (NouveauLieu a)) (a_numEmp a)
                            ((cur c)\<lparr>AFFECTER := AFFECTER (cur c) @ [a]\<rparr>),
                   saved = None\<rparr>))"
  by (simp add: insert_and_propagate_def begin_transaction_eq execute_insert_open
        execute_write_open rollback_open commit_eq insert_affecter_def closed_connection Let_def)



lemma not_raises_None: "\<not> raises None k"
  by (simp add: raises_def)














section \<open>Seeding, table by table\<close>

lemma executemany_locations:
  "LIEU t = [] \<Longrightarrow> executemany insert_lieu sample_locations t = Inr (t\<lparr>LIEU := sample_locations\<rparr>)"
  by (simp add: sample_locations_def insert_lieu_def)

lemma executemany_employees:
  "EMPLOYE t = [] \<Longrightarrow> executemany insert_employe sample_employees t = Inr (t\<lparr>EMPLOYE := sample_employees\<rparr>)"
  by (simp add: sample_employees_def insert_employe_def CIVILITE_OPTIONS_def)

lemma executemany_assignments:
  "AFFECTER t = [] \<Longrightarrow> executemany insert_affecter sample_assignments t = Inr (t\<lparr>AFFECTER := sample_assignments\<rparr>)"
  by (simp add: sample_assignments_def insert_affecter_def)

lemma seed_table_locations:
  "seed_table (length (LIEU (cur c)) = 0) (executemany insert_lieu sample_locations) c =
     (None, if LIEU (cur c) = [] then (implicit_begin c)\<lparr>cur := (cur c)\<lparr>LIEU := sample_locations\<rparr>\<rparr> else c)"
  by (simp add: seed_table_def execute_insert_def executemany_locations implicit_begin_def Let_def split: option.splits)

lemma seed_table_employees:
  "seed_table (length (EMPLOYE (cur c)) = 0) (executemany insert_employe sample_employees) c =
     (None, if EMPLOYE (cur c) = [] then (implicit_begin c)\<lparr>cur := (cur c)\<lparr>EMPLOYE := sample_employees\<rparr>\<rparr> else c)"
  by (simp add: seed_table_def execute_insert_def executemany_employees implicit_begin_def Let_def split: option.splits)

lemma seed_table_assignments:
  "seed_table (length (AFFECTER (cur c)) = 0) (executemany insert_affecter sample_assignments) c =
     (None, if AFFECTER (cur c) = [] then (implicit_begin c)\<lparr>cur := (cur c)\<lparr>AFFECTER := sample_assignments\<rparr>\<rparr> else c)"
  by (simp add: seed_table_def execute_insert_def executemany_assignments implicit_begin_def Let_def split: option.splits)


section \<open>Statements leave the other tables alone\<close>

lemma find_map_preserving:
  "(\<And>x. P (f x) = P x) \<Longrightarrow> find P (map f xs) = map_option f (find P xs)"
  by (induction xs) auto

lemma Employee_get_set_idlieu:
  "Employee_get (set_idlieu v emp t) emp = map_option (\<lambda>e. e\<lparr>idlieu := v\<rparr>) (Employee_get t emp)"
proof -
  have "find (\<lambda>e. numEmp e = emp) (map (\<lambda>e. if numEmp e = emp then e\<lparr>idlieu := v\<rparr> else e) xs)
        = map_option (\<lambda>e. e\<lparr>idlieu := v\<rparr>) (find (\<lambda>e. numEmp e = emp) xs)" for xs
    by (induction xs) auto
  then show ?thesis by (simp add: Employee_get_def set_idlieu_def)
qed

lemma Location_get_after_insert:
  "Location_get (set_idlieu v emp (t\<lparr>AFFECTER := rows\<rparr>)) l = Location_get t l"
  by (simp add: Location_get_def set_idlieu_def)

lemma AFFECTER_set_idlieu: "AFFECTER (set_idlieu v emp t) = AFFECTER t"
  by (simp add: set_idlieu_def)

lemma Employee_get_AFFECTER_update:
  "Employee_get (t\<lparr>AFFECTER := rows\<rparr>) emp = Employee_get t emp"
  by (simp add: Employee_get_def)

section \<open>The current location and the assignment history\<close>

text \<open>
  C1. The claim: after every create, update or delete through the assignment
  controller, the idlieu of an employee is the NouveauLieu of the employee's AFFECTER
  row with the greatest (dateAffect, datePriseService), and NULL when no row remains.
  \<open>create\<close> does not keep it: it writes the new row's NouveauLieu into idlieu without
  looking at the dates of the rows already stored. E1, at L1, moves to L2 on 2024-02-01
  (the row A001) and the property holds; a second creation, from L2 to L3 and dated
  2024-01-10, is accepted and leaves idlieu = L3, while the latest row is still A001,
  whose NouveauLieu is L2.
\<close>

theorem create_ignores_dates:
  "AssignmentController_create (2024, 6, 1) None
      (new_assignment ''E1'' ''L1'' ''L2'' ''2024-02-01'' ''2024-02-05'') example_db
     = (Inr ''A001'', moved_db)
   \<and> mirrors_latest (cur moved_db) ''E1''
   \<and> AssignmentController_create (2024, 6, 1) None
        (new_assignment ''E1'' ''L2'' ''L3'' ''2024-01-10'' ''2024-01-15'') moved_db
     = (Inr ''A002'', later_db)
   \<and> map_option idlieu (Employee_get (cur later_db) ''E1'') = Some (Some ''L3'')
   \<and> map_option NouveauLieu (latest_assignment (cur later_db) ''E1'') = Some ''L2''
   \<and> \<not> mirrors_latest (cur later_db) ''E1''"
  by code_simp

section \<open>Atomicity of the assignment operations\<close>



text \<open>
  The same on deletion and on update: the DELETE of the row A001 succeeds and the UPDATE
  of EMPLOYE (call number 3) raises; the UPDATE of A001 succeeds and the commit (call
  number 3) raises. Both return a failure and leave \<open>moved_db\<close>. A creation whose
  identifier is in use fails at the INSERT. With no call raising, the deletion succeeds,
  E1 has no row left and the idlieu of E1 is NULL.
\<close>

lemma rollback_after_write:
  "AssignmentController_delete (Some 3) ''A001'' moved_db
     = (Some (DatabaseError OperationalError), moved_db)
   \<and> AssignmentController_update (2024, 6, 1) (Some 3) ''A001'' (move_to_employee ''E2'') moved_db
     = (Some (DatabaseError OperationalError), moved_db)
   \<and> AssignmentController_create (2024, 6, 1) None
        ((new_assignment ''E1'' ''L2'' ''L3'' ''2024-03-10'' ''2024-03-15'')
           \<lparr>d_numAffect := Some ''A001''\<rparr>) moved_db
     = (Inl (DatabaseError IntegrityError), moved_db)
   \<and> fst (AssignmentController_delete None ''A001'' moved_db) = None
   \<and> map (\<lambda>e. (numEmp e, idlieu e))
        (EMPLOYE (cur (snd (AssignmentController_delete None ''A001'' moved_db))))
     = [(''E1'', None), (''E2'', None)]"
  by code_simp

section \<open>Updating an assignment\<close>

text \<open>
  C3. The claim: on update, a row that is the employee's latest after the edit has its
  NouveauLieu written to the employee's idlieu, and when the update gives the row to
  another employee, the previous employee's idlieu is recomputed from the rows that
  remain (NULL when none remains). The controller does neither here: the row A001 of E1
  is given to E2. E1 has no row left and keeps idlieu = L2; A001 is now the latest (and
  only) row of E2, whose idlieu stays NULL, because the controller looks for the latest
  row of the new employee before the UPDATE.
\<close>

theorem update_recomputes_nothing:
  "mirrors_latest (cur moved_db) ''E1'' \<and> mirrors_latest (cur moved_db) ''E2''
   \<and> AssignmentController_update (2024, 6, 1) None ''A001'' (move_to_employee ''E2'') moved_db
     = (None, reassigned_db)
   \<and> latest_assignment (cur reassigned_db) ''E1'' = None
   \<and> map_option idlieu (Employee_get (cur reassigned_db) ''E1'') = Some (Some ''L2'')
   \<and> map_option numAffect (latest_assignment (cur reassigned_db) ''E2'') = Some ''A001''
   \<and> map_option idlieu (Employee_get (cur reassigned_db) ''E2'') = Some None"
  by code_simp

text \<open>
  The direct path at the same input: \<open>Database.update_assignment\<close> writes L2 into the
  idlieu of E2, the new employee, and leaves E1, who has no row left, at L2.
\<close>

lemma Database_update_assignment_keeps_previous:
  "fst (Database_update_assignment None (first_move\<lparr>a_numEmp := ''E2''\<rparr>) moved_db) = None
   \<and> map (\<lambda>e. (numEmp e, idlieu e))
        (EMPLOYE (cur (snd (Database_update_assignment None (first_move\<lparr>a_numEmp := ''E2''\<rparr>) moved_db))))
     = [(''E1'', Some ''L2''), (''E2'', Some ''L2'')]
   \<and> latest_assignment
        (cur (snd (Database_update_assignment None (first_move\<lparr>a_numEmp := ''E2''\<rparr>) moved_db))) ''E1''
     = None"
  by code_simp

section \<open>The origin check on creation\<close>

text \<open>
  C4. When the employee's idlieu differs from the stated AncienLieu,
  \<open>AssignmentController.create\<close> returns an error and the connection is untouched.
  \<open>Database.add_assignment\<close> makes no such check: on a connection with no transaction
  open, and with no call raising, it inserts any row whose identifier is free, and
  sets the employee's idlieu, whatever the employee's location was.
\<close>

theorem create_checks_origin:
  "(Employee_get (cur c) (strip (field_of (d_numEmp data))) = Some employee
      \<and> idlieu employee \<noteq> Some (strip (field_of (d_AncienLieu data)))
    \<longrightarrow> (\<exists>e. AssignmentController_create today fault data c = (Inl e, c)))
   \<and> (saved c = None \<and> numAffect a \<notin> set (map numAffect (AFFECTER (cur c)))
    \<longrightarrow> Database_add_assignment None a c =
          (None, \<lparr>cur = set_idlieu (Some (NouveauLieu a)) (a_numEmp a)
                          ((cur c)\<lparr>AFFECTER := AFFECTER (cur c) @ [a]\<rparr>),
                 saved = None\<rparr>))"
proof (intro conjI impI)
  assume "Employee_get (cur c) (strip (field_of (d_numEmp data))) = Some employee
      \<and> idlieu employee \<noteq> Some (strip (field_of (d_AncienLieu data)))"
  then show "\<exists>e. AssignmentController_create today fault data c = (Inl e, c)"
    by (simp add: AssignmentController_create_def Let_def split: option.splits)
next
  assume "saved c = None \<and> numAffect a \<notin> set (map numAffect (AFFECTER (cur c)))"
  then show "Database_add_assignment None a c =
          (None, \<lparr>cur = set_idlieu (Some (NouveauLieu a)) (a_numEmp a)
                          ((cur c)\<lparr>AFFECTER := AFFECTER (cur c) @ [a]\<rparr>),
                 saved = None\<rparr>)"
    by (simp add: Database_add_assignment_def insert_and_propagate_eq not_raises_None)
qed

text \<open>
  E1 is at L2. A creation that states L1 as the origin is refused; the same row given
  to \<open>Database.add_assignment\<close> is stored, and E1 is moved to L3.
\<close>

theorem create_checks_origin_witness:
  "(\<exists>e. AssignmentController_create (2024, 6, 1) None
           (new_assignment ''E1'' ''L1'' ''L3'' ''2024-03-10'' ''2024-03-15'') moved_db
         = (Inl e, moved_db))
   \<and> fst (Database_add_assignment None
            \<lparr>numAffect = ''A002'', a_numEmp = ''E1'', AncienLieu = ''L1'', NouveauLieu = ''L3'',
              dateAffect = ''2024-03-10'', datePriseService = ''2024-03-15''\<rparr> moved_db) = None
   \<and> map_option idlieu
        (Employee_get
           (cur (snd (Database_add_assignment None
              \<lparr>numAffect = ''A002'', a_numEmp = ''E1'', AncienLieu = ''L1'', NouveauLieu = ''L3'',
                dateAffect = ''2024-03-10'', datePriseService = ''2024-03-15''\<rparr> moved_db))) ''E1'')
     = Some (Some ''L3'')"
proof -
  let ?data = "new_assignment ''E1'' ''L1'' ''L3'' ''2024-03-10'' ''2024-03-15''"
  let ?row = "\<lparr>numAffect = ''A002'', a_numEmp = ''E1'', AncienLieu = ''L1'', NouveauLieu = ''L3'',
               dateAffect = ''2024-03-10'', datePriseService = ''2024-03-15''\<rparr>"
  let ?e1 = "example_employee ''E1'' ''e1@example.com'' (Some ''L2'')"
  have 1: "Employee_get (cur moved_db) (strip (field_of (d_numEmp ?data))) = Some ?e1
           \<and> idlieu ?e1 \<noteq> Some (strip (field_of (d_AncienLieu ?data)))"
    by code_simp
  have 2: "saved moved_db = None \<and> numAffect ?row \<notin> set (map numAffect (AFFECTER (cur moved_db)))"
    by code_simp
  have 3: "map_option idlieu
             (Employee_get (set_idlieu (Some ''L3'') ''E1''
                ((cur moved_db)\<lparr>AFFECTER := AFFECTER (cur moved_db) @ [?row]\<rparr>)) ''E1'')
           = Some (Some ''L3'')"
    by code_simp
  from create_checks_origin[of moved_db ?data ?e1 "(2024, 6, 1)" None ?row] 1 2 3
  show ?thesis
    by simp
qed

section \<open>Seeding\<close>

text \<open>
  C5, amended. The seeding step looks at each of the three tables on its own: a table
  that holds a row is left as it is, and a table that is empty receives its
  demonstration rows, whatever the other two tables hold. So a non-empty LIEU table
  gains no row, while an empty EMPLOYE or AFFECTER table is seeded beside it. The step
  never fails and ends with its changes committed.
\<close>

theorem seed_initial_data_per_table:
  "seed_initial_data c =
     Inr \<lparr>cur = \<lparr>LIEU = (if LIEU (cur c) = [] then sample_locations else LIEU (cur c)),
                 EMPLOYE = (if EMPLOYE (cur c) = [] then sample_employees else EMPLOYE (cur c)),
                 AFFECTER = (if AFFECTER (cur c) = [] then sample_assignments else AFFECTER (cur c))\<rparr>,
          saved = None\<rparr>"
  unfolding seed_initial_data_def seed_table_locations seed_table_employees seed_table_assignments
  by (cases c; cases "cur c") (simp add: implicit_begin_def commit_def split: option.splits)

text \<open>
  On \<open>moved_db\<close> every table holds a row, and seeding changes nothing.
\<close>

theorem seed_initial_data_per_table_witness:
  "seed_initial_data moved_db = Inr moved_db"
  using seed_initial_data_per_table[of moved_db]
  by (simp add: moved_db_def example_locations_def)

text \<open>
  The claim as it was stated fails: with one location and no employee, the LIEU table
  is not empty, and seeding inserts the ten employees and the ten assignments.
\<close>

theorem seed_initial_data_counterexample:
  "seed_initial_data one_location_db =
     Inr \<lparr>cur = \<lparr>LIEU = [\<lparr>l_idlieu = ''L1'', design = ''HQ'', province = ''North''\<rparr>],
                 EMPLOYE = sample_employees, AFFECTER = sample_assignments\<rparr>,
          saved = None\<rparr>
   \<and> length sample_employees = 10 \<and> length sample_assignments = 10"
  by code_simp

section \<open>Employee validation\<close>

text \<open>
  C6. The claim: an employee whose mail lacks the \<open>@\<close>, or a dot in the part after it,
  is rejected. \<open>Employee.validate\<close> looks for the \<open>@\<close> only: the mail
  \<open>jean@localhost\<close> passes, although \<open>helpers.validate_email\<close>, which asks for the dot
  as the claim does, refuses it. A mail without \<open>@\<close> is rejected.
\<close>

theorem Employee_validate_ignores_domain:
  "Employee_validate (example_employee ''E1'' ''jean@localhost'' None) = None
   \<and> \<not> validate_email ''jean@localhost''
   \<and> Employee_validate (example_employee ''E1'' ''jean.localhost'' None) = Some ValidEmailRequired"
  by code_simp

section \<open>The generated identifier\<close>



section \<open>Deleting a location that is in use\<close>

text \<open>
  C8. For every location (a row of LIEU) that an employee's idlieu names, or that an
  AFFECTER row names as AncienLieu or NouveauLieu, \<open>LocationController.delete\<close>
  returns a referential-integrity error, and the connection, hence every row of every
  table, is as it was.
\<close>

theorem LocationController_delete_referenced:
  assumes "Location_get (cur c) location_id = Some location"
      and "(\<exists>e \<in> set (EMPLOYE (cur c)). idlieu e = Some location_id)
           \<or> (\<exists>a \<in> set (AFFECTER (cur c)). AncienLieu a = location_id \<or> NouveauLieu a = location_id)"
  shows "\<exists>e. LocationController_delete fault location_id c = (Some e, c)
             \<and> is_referential_integrity_error e"
  using assms
  by (auto simp: LocationController_delete_def filter_empty_conv is_referential_integrity_error_def)

text \<open>
  In \<open>moved_db\<close> the location L2 is where E1 is, and L1 is the origin of the row A001.
\<close>

theorem LocationController_delete_referenced_witness:
  "(\<exists>e. LocationController_delete None ''L2'' moved_db = (Some e, moved_db)
        \<and> is_referential_integrity_error e)
   \<and> (\<exists>e. LocationController_delete None ''L1'' moved_db = (Some e, moved_db)
        \<and> is_referential_integrity_error e)"
proof -
  have l2: "Location_get (cur moved_db) ''L2''
              = Some \<lparr>l_idlieu = ''L2'', design = ''Branch'', province = ''South''\<rparr>"
    by code_simp
  have l1: "Location_get (cur moved_db) ''L1''
              = Some \<lparr>l_idlieu = ''L1'', design = ''HQ'', province = ''North''\<rparr>"
    by code_simp
  have e1: "example_employee ''E1'' ''e1@example.com'' (Some ''L2'') \<in> set (EMPLOYE (cur moved_db))"
    by (simp add: moved_db_def)
  have i1: "idlieu (example_employee ''E1'' ''e1@example.com'' (Some ''L2'')) = Some ''L2''"
    by (simp add: example_employee_def)
  have a1: "first_move \<in> set (AFFECTER (cur moved_db))" "AncienLieu first_move = ''L1''"
    by (simp_all add: moved_db_def first_move_def)
  have r2: "(\<exists>e \<in> set (EMPLOYE (cur moved_db)). idlieu e = Some ''L2'')
            \<or> (\<exists>a \<in> set (AFFECTER (cur moved_db)). AncienLieu a = ''L2'' \<or> NouveauLieu a = ''L2'')"
    using e1 i1 by blast
  have r1: "(\<exists>e \<in> set (EMPLOYE (cur moved_db)). idlieu e = Some ''L1'')
            \<or> (\<exists>a \<in> set (AFFECTER (cur moved_db)). AncienLieu a = ''L1'' \<or> NouveauLieu a = ''L1'')"
    using a1 by blast
  from LocationController_delete_referenced[OF l2 r2, of None]
       LocationController_delete_referenced[OF l1 r1, of None]
  show ?thesis
    by (rule conjI)
qed

section \<open>An assignment from a location to itself\<close>

text \<open>
  C9, amended. A creation whose origin and destination are the same location fails
  with a validation error in \<open>AssignmentController.create\<close>, and fails in
  \<open>EmployeeController.assign_location\<close> when the destination is the location the
  employee's idlieu holds; in both cases the connection is untouched, so no row is
  written. (The direct path \<open>Database.add_assignment\<close> validates nothing and is not
  part of the amended claim.)
\<close>

theorem create_rejects_equal_locations:
  "(strip (field_of (d_AncienLieu data)) = strip (field_of (d_NouveauLieu data))
     \<longrightarrow> (\<exists>e. AssignmentController_create today fault data c = (Inl e, c) \<and> is_validation_error e))
   \<and> (Employee_get (cur c) employee_id = Some employee \<and> idlieu employee = Some new_location_id
     \<longrightarrow> (\<exists>e. EmployeeController_assign_location fault' employee_id new_location_id d s aid c
                = (Some e, c)))"
proof (intro conjI impI)
  assume eq: "strip (field_of (d_AncienLieu data)) = strip (field_of (d_NouveauLieu data))"
  show "\<exists>e. AssignmentController_create today fault data c = (Inl e, c) \<and> is_validation_error e"
    using eq
    by (simp add: AssignmentController_create_def Let_def Assignment_validate_def
          is_validation_error_def)
next
  assume "Employee_get (cur c) employee_id = Some employee \<and> idlieu employee = Some new_location_id"
  then show "\<exists>e. EmployeeController_assign_location fault' employee_id new_location_id d s aid c
                = (Some e, c)"
    by (simp add: EmployeeController_assign_location_def)
qed

text \<open>
  E1 is at L1: a creation from L1 to L1 and an assignment of E1 to L1 both fail and
  leave \<open>example_db\<close> as it is.
\<close>

theorem create_rejects_equal_locations_witness:
  "(\<exists>e. AssignmentController_create (2024, 6, 1) None
           (new_assignment ''E1'' ''L1'' ''L1'' ''2024-02-01'' ''2024-02-05'') example_db
         = (Inl e, example_db) \<and> is_validation_error e)
   \<and> (\<exists>e. EmployeeController_assign_location None ''E1'' ''L1'' ''2024-02-01'' ''2024-02-05'' None
           example_db = (Some e, example_db))"
proof -
  let ?data = "new_assignment ''E1'' ''L1'' ''L1'' ''2024-02-01'' ''2024-02-05''"
  let ?e1 = "example_employee ''E1'' ''e1@example.com'' (Some ''L1'')"
  have 1: "strip (field_of (d_AncienLieu ?data)) = strip (field_of (d_NouveauLieu ?data))"
    by (simp add: new_assignment_def)
  have 2: "Employee_get (cur example_db) ''E1'' = Some ?e1 \<and> idlieu ?e1 = Some ''L1''"
    by code_simp
  from create_rejects_equal_locations
         [where data = ?data and today = "(2024, 6, 1)" and fault = None and c = example_db
            and employee_id = "''E1''" and employee = ?e1 and new_location_id = "''L1''"
            and fault' = None and d = "''2024-02-01''" and s = "''2024-02-05''" and aid = None]
       1 2
  show ?thesis
    by simp
qed

text \<open>
  The claim as it was stated fails on the direct database path:
  \<open>Database.add_assignment\<close> stores a row from L1 to L1.
\<close>

theorem add_assignment_equal_locations_counterexample:
  "Database_add_assignment None
      \<lparr>numAffect = ''A001'', a_numEmp = ''E1'', AncienLieu = ''L1'', NouveauLieu = ''L1'',
        dateAffect = ''2024-02-01'', datePriseService = ''2024-02-05''\<rparr> example_db
     = (None,
        \<lparr>cur = \<lparr>LIEU = example_locations,
                EMPLOYE = [example_employee ''E1'' ''e1@example.com'' (Some ''L1''),
                           example_employee ''E2'' ''e2@example.com'' None],
                AFFECTER = [\<lparr>numAffect = ''A001'', a_numEmp = ''E1'', AncienLieu = ''L1'',
                              NouveauLieu = ''L1'', dateAffect = ''2024-02-01'',
                              datePriseService = ''2024-02-05''\<rparr>]\<rparr>,
         saved = None\<rparr>)"
  by code_simp

section \<open>Assigning an employee who has no location\<close>

text \<open>
  C10, amended. For every employee whose idlieu is NULL and every destination that is
  a row of LIEU, \<open>EmployeeController.assign_location\<close>, called on a connection with no
  transaction open and with an assignment identifier that is left out or not in use
  yet, succeeds when no call of the database raises: it appends an AFFECTER row whose AncienLieu is the text \<open>UNKNOWN\<close>,
  sets the employee's idlieu to the destination and commits. The LIEU table is not
  touched, so \<open>UNKNOWN\<close> names a location afterwards only if it did before.
\<close>

theorem assign_location_unknown_origin:
  assumes "saved c = None"
      and "Employee_get (cur c) employee_id = Some employee"
      and "idlieu employee = None"
      and "Location_get (cur c) new_location_id = Some location"
      and "falsy aid \<or> field_of aid \<notin> set (map numAffect (AFFECTER (cur c)))"
  shows "\<exists>c'. EmployeeController_assign_location None employee_id new_location_id d s aid c = (None, c')
           \<and> saved c' = None
           \<and> AFFECTER (cur c') =
               AFFECTER (cur c) @
                 [\<lparr>numAffect = (if falsy aid then get_next_id ''A'' (map numAffect (AFFECTER (cur c)))
                                else field_of aid),
                   a_numEmp = employee_id, AncienLieu = ''UNKNOWN'', NouveauLieu = new_location_id,
                   dateAffect = d, datePriseService = s\<rparr>]
           \<and> Employee_get (cur c') employee_id = Some (employee\<lparr>idlieu := Some new_location_id\<rparr>)
           \<and> Location_get (cur c') ''UNKNOWN'' = Location_get (cur c) ''UNKNOWN''"
proof -
  let ?aid = "if falsy aid then get_next_id ''A'' (map numAffect (AFFECTER (cur c))) else field_of aid"
  have fresh: "?aid \<notin> set (map numAffect (AFFECTER (cur c)))"
    using assms(5) get_next_id_fresh[of "''A''" "map numAffect (AFFECTER (cur c))"] by auto
  have "falsy (idlieu employee)" using assms(3) by (simp add: falsy_def)
  with assms(1-4) fresh show ?thesis
    by (simp add: EmployeeController_assign_location_def insert_and_propagate_eq Let_def
          not_raises_None Employee_get_set_idlieu Employee_get_AFFECTER_update Location_get_after_insert
          AFFECTER_set_idlieu)
qed

text \<open>
  E2 has no location. Assigned to L1 with no identifier given, E2 gets the row A002
  with the origin \<open>UNKNOWN\<close>, which is no location of the database.
\<close>

theorem assign_location_unknown_origin_witness:
  "\<exists>c'. EmployeeController_assign_location None ''E2'' ''L1'' ''2024-03-01'' ''2024-03-02'' None moved_db
            = (None, c')
         \<and> saved c' = None
         \<and> AFFECTER (cur c') =
             [first_move,
              \<lparr>numAffect = ''A002'', a_numEmp = ''E2'', AncienLieu = ''UNKNOWN'', NouveauLieu = ''L1'',
                dateAffect = ''2024-03-01'', datePriseService = ''2024-03-02''\<rparr>]
         \<and> Employee_get (cur c') ''E2'' = Some (example_employee ''E2'' ''e2@example.com'' (Some ''L1''))
         \<and> Location_get (cur c') ''UNKNOWN'' = None"
proof -
  have 1: "saved moved_db = None" by code_simp
  have 2: "Employee_get (cur moved_db) ''E2'' = Some (example_employee ''E2'' ''e2@example.com'' None)"
    by code_simp
  have 3: "idlieu (example_employee ''E2'' ''e2@example.com'' None) = None" by code_simp
  have 4: "Location_get (cur moved_db) ''L1'' = Some \<lparr>l_idlieu = ''L1'', design = ''HQ'', province = ''North''\<rparr>"
    by code_simp
  have 5: "falsy None \<or> field_of None \<notin> set (map numAffect (AFFECTER (cur moved_db)))"
    by (simp add: falsy_def)
  have 6: "get_next_id ''A'' [numAffect first_move] = ''A002''" by code_simp
  have 7: "AFFECTER (cur moved_db) = [first_move]" by code_simp
  have 8: "Location_get (cur moved_db) ''UNKNOWN'' = None" by code_simp
  have 9: "(example_employee ''E2'' ''e2@example.com'' None)\<lparr>idlieu := Some ''L1''\<rparr>
           = example_employee ''E2'' ''e2@example.com'' (Some ''L1'')"
    by (simp add: example_employee_def)
  from assign_location_unknown_origin[OF 1 2 3 4 5, of "''2024-03-01''" "''2024-03-02''"]
  show ?thesis unfolding 7 8 9 by (simp add: falsy_def 6)
qed

text \<open>
  The claim as it was stated fails when the caller gives an identifier that is in
  use: E2 has no location and L1 exists, yet the INSERT is refused, the transaction is
  rolled back and nothing is written.
\<close>

theorem assign_location_counterexample:
  "EmployeeController_assign_location None ''E2'' ''L1'' ''2024-03-01'' ''2024-03-02''
      (Some ''A001'')
      moved_db
     = (Some (DatabaseError IntegrityError), moved_db)"
  by code_simp

end
